theory Spec2Isabelle
  imports Complex_Main
begin

section \<open>The configuration record (backend/config.py)\<close>

text \<open>
  The dataclass \<open>Config\<close> is a record with the annotated field types: \<open>players\<close>,
  \<open>ante\<close> and \<open>rounds\<close> are Python integers (unbounded, so \<open>int\<close>); the edge bounds
  and \<open>bust_multiplier\<close> are floats; \<open>tube_initial\<close> is a dictionary from strings to
  floats. Floats are modelled by exact reals: the model does not round the results of
  float arithmetic, and it has no infinities and no NaN.
\<close>

record Config =
  players :: int
  ante :: int
  rounds :: int
  target_edge :: real
  min_edge :: real
  max_edge :: real
  bust_multiplier :: real
  tube_initial :: "string \<rightharpoonup> real"

definition default_tube_initial :: "string \<rightharpoonup> real" where
  "default_tube_initial =
     [''ST'' \<mapsto> 5, ''FL'' \<mapsto> 10, ''FH'' \<mapsto> 15, ''SF'' \<mapsto> 20, ''RF'' \<mapsto> 25]"

definition default_Config :: Config where
  "default_Config =
     \<lparr>players = 4, ante = 5, rounds = 20000,
      target_edge = 5 / 100, min_edge = 3 / 100, max_edge = 7 / 100,
      bust_multiplier = 1, tube_initial = default_tube_initial\<rparr>"

section \<open>Python arithmetic used by the engine\<close>

datatype error = OverflowError | ZeroDivisionError

text \<open>
  An operation that mixes a float and an int converts the int to a float first. The
  conversion raises \<open>OverflowError\<close> when the integer, rounded to 53 significant bits
  (ties to even), does not fit a double: that is from \<open>2^1024 - 2^970\<close> on, in
  absolute value. Below that bound the model keeps the integer's exact value.
\<close>

definition float_int_limit :: int where
  "float_int_limit = 2 ^ 1024 - 2 ^ 970"

definition float_of_int :: "int \<Rightarrow> error + real" where
  "float_of_int n =
     (if \<bar>n\<bar> < float_int_limit then Inr (of_int n) else Inl OverflowError)"

text \<open>Float division raises \<open>ZeroDivisionError\<close> on a zero divisor.\<close>

definition float_truediv :: "real \<Rightarrow> real \<Rightarrow> error + real" where
  "float_truediv x y = (if y = 0 then Inl ZeroDivisionError else Inr (x / y))"

text \<open>
  \<open>round(x, ndigits)\<close> on a float rounds to the nearest multiple of \<open>10^-ndigits\<close>,
  a tie going to the even neighbour.
\<close>

definition round_half_even :: "real \<Rightarrow> int" where
  "round_half_even x =
     (let f = \<lfloor>x\<rfloor>; d = x - of_int f
      in if d < 1 / 2 then f
         else if 1 / 2 < d then f + 1
         else if even f then f else f + 1)"

definition py_round :: "real \<Rightarrow> nat \<Rightarrow> real" where
  "py_round x ndigits = of_int (round_half_even (x * 10 ^ ndigits)) / 10 ^ ndigits"

section \<open>The engine (backend/engine.py)\<close>

text \<open>
  A \<open>GameEngine\<close> object holds the configuration and the accumulator \<open>house_net\<close>.
  The module-level generator behind \<open>random.random()\<close> is the infinite sequence of
  the draws it is going to return; a call returns the first and leaves the rest. The state
  a method runs in is the pair of the engine and that sequence.
\<close>

record GameEngine =
  config :: Config
  house_net :: real

type_synonym rng = "nat \<Rightarrow> real"

type_synonym world = "GameEngine \<times> rng"

definition random_random :: "rng \<Rightarrow> real \<times> rng" where
  "random_random g = (g 0, \<lambda>n. g (Suc n))"

text \<open>A source that returns the same number at every call.\<close>

definition constant_source :: "real \<Rightarrow> rng" where
  "constant_source x = (\<lambda>n. x)"

definition init :: "Config \<Rightarrow> GameEngine" where
  "init cfg = \<lparr>config = cfg, house_net = 0\<rparr>"

text \<open>
  \<open>for _ in range(n): body\<close>: the body runs \<open>n\<close> times on the state, and an exception
  in the body leaves the loop with the state as it was when it was raised.
\<close>

fun for_range :: "nat \<Rightarrow> ('s \<Rightarrow> (error + unit) \<times> 's) \<Rightarrow> 's \<Rightarrow> (error + unit) \<times> 's" where
  "for_range 0 body s = (Inr (), s)"
| "for_range (Suc n) body s =
     (case body s of
        (Inl e, s') \<Rightarrow> (Inl e, s')
      | (Inr u, s') \<Rightarrow> for_range n body s')"

text \<open>
  The body of the loop of \<open>run_round\<close>, one player-turn: a draw, then one of three
  updates of \<open>house_net\<close>. Each update has the integer \<open>ante\<close> as an operand of a float
  operation, hence its conversion.
\<close>

definition player_turn :: "world \<Rightarrow> (error + unit) \<times> world" where
  "player_turn w =
     (case w of (self, g) \<Rightarrow>
        case random_random g of (r, g') \<Rightarrow>
        if r < 47 / 100 then
          (case float_of_int (ante (config self)) of
             Inl e \<Rightarrow> (Inl e, (self, g'))
           | Inr a \<Rightarrow> (Inr (), (self\<lparr>house_net := house_net self - a\<rparr>, g')))
        else if r < 95 / 100 then
          (case float_of_int (ante (config self)) of
             Inl e \<Rightarrow> (Inl e, (self, g'))
           | Inr a \<Rightarrow> (Inr (), (self\<lparr>house_net := house_net self + a\<rparr>, g')))
        else
          (case float_of_int (ante (config self)) of
             Inl e \<Rightarrow> (Inl e, (self, g'))
           | Inr a \<Rightarrow>
               (Inr (), (self\<lparr>house_net := house_net self + a * bust_multiplier (config self)\<rparr>, g'))))"

definition run_round :: "world \<Rightarrow> (error + unit) \<times> world" where
  "run_round w = for_range (nat (players (config (fst w)))) player_turn w"

text \<open>
  \<open>total_input\<close> is a product of three integers, exact in Python; the division
  \<open>self.house_net / total_input\<close> converts it. The returned dictionary is the list of
  its two items, in the order of the literal.
\<close>

definition simulate :: "world \<Rightarrow> (error + (string \<times> real) list) \<times> world" where
  "simulate w =
     (case w of (self, g) \<Rightarrow>
        (case for_range (nat (rounds (config self))) run_round (self\<lparr>house_net := 0\<rparr>, g) of
           (Inl e, w') \<Rightarrow> (Inl e, w')
         | (Inr u, (self', g')) \<Rightarrow>
             let total_input = rounds (config self') * players (config self') * ante (config self') in
             (case (if total_input > 0
                    then (case float_of_int total_input of
                            Inl e \<Rightarrow> Inl e
                          | Inr t \<Rightarrow> float_truediv (house_net self') t)
                    else Inr 0) of
                Inl e \<Rightarrow> (Inl e, (self', g'))
              | Inr house_edge \<Rightarrow>
                  (Inr [(''house_net'', py_round (house_net self') 2),
                        (''house_edge'', py_round house_edge 4)],
                   (self', g')))))"

section \<open>Basic facts\<close>

subsection \<open>Conversion and rounding\<close>

lemma float_int_limit_pos: "0 < float_int_limit"
  by (simp add: float_int_limit_def)

lemma float_of_int_ok: "\<bar>n\<bar> < float_int_limit \<Longrightarrow> float_of_int n = Inr (of_int n)"
  by (simp add: float_of_int_def)


lemma round_half_even_of_int: "round_half_even (of_int k) = k"
  by (simp add: round_half_even_def)

lemma py_round_0: "py_round 0 n = 0"
  using round_half_even_of_int [of 0] by (simp add: py_round_def)

subsection \<open>Loops\<close>

lemma for_range_inv:
  assumes step: "\<And>s. P s \<Longrightarrow> P (snd (body s))" and start: "P s"
  shows "P (snd (for_range n body s))"
  using start
proof (induction n arbitrary: s)
  case 0
  then show ?case by simp
next
  case (Suc n)
  obtain r s' where b: "body s = (r, s')" by (cases "body s")
  with Suc.prems step [of s] have "P s'" by simp
  with Suc.IH [of s'] b show ?case by (cases r) simp_all
qed

lemma for_range_ok:
  assumes step: "\<And>s. P s \<Longrightarrow> P (snd (body s)) \<and> fst (body s) = Inr ()" and start: "P s"
  shows "fst (for_range n body s) = Inr ()"
  using start
proof (induction n arbitrary: s)
  case 0
  then show ?case by simp
next
  case (Suc n)
  obtain r s' where b: "body s = (r, s')" by (cases "body s")
  with Suc.prems step [of s] have "P s'" "r = Inr ()" by simp_all
  with Suc.IH [of s'] b show ?case by simp
qed


lemma for_range_rel:
  assumes step: "\<And>s t. R s t \<Longrightarrow> fst (body s) = fst (body t) \<and> R (snd (body s)) (snd (body t))"
    and start: "R s t"
  shows "fst (for_range n body s) = fst (for_range n body t)
         \<and> R (snd (for_range n body s)) (snd (for_range n body t))"
  using start
proof (induction n arbitrary: s t)
  case 0
  then show ?case by simp
next
  case (Suc n)
  obtain r s' where bs: "body s = (r, s')" by (cases "body s")
  obtain q t' where bt: "body t = (q, t')" by (cases "body t")
  from Suc.prems step [of s t] bs bt have bt': "body t = (r, t')" and R': "R s' t'" by simp_all
  show ?case
  proof (cases r)
    case (Inl e)
    with R' bs bt' show ?thesis by simp
  next
    case (Inr u)
    with Suc.IH [OF R'] bs bt' show ?thesis by simp
  qed
qed

subsection \<open>One player-turn\<close>

lemma player_turn_config: "config (fst (snd (player_turn w))) = config (fst w)"
  by (cases w) (simp add: player_turn_def random_random_def split: sum.splits)

lemma player_turn_ok:
  "\<bar>ante (config (fst w))\<bar> < float_int_limit \<Longrightarrow> fst (player_turn w) = Inr ()"
  by (cases w) (simp add: player_turn_def random_random_def float_of_int_ok)


subsection \<open>One round\<close>

lemma run_round_config: "config (fst (snd (run_round w))) = config (fst w)"
  unfolding run_round_def
  by (rule for_range_inv [where P = "\<lambda>s. config (fst s) = config (fst w)"])
     (simp_all add: player_turn_config)

lemma run_round_ok:
  assumes "\<bar>ante (config (fst w))\<bar> < float_int_limit"
  shows "fst (run_round w) = Inr ()"
  unfolding run_round_def
  by (rule for_range_ok [where P = "\<lambda>s. config (fst s) = config (fst w)"])
     (simp_all add: player_turn_config player_turn_ok assms)

lemma run_round_no_players:
  "players (config (fst w)) \<le> 0 \<Longrightarrow> run_round w = (Inr (), w)"
  by (simp add: run_round_def)


subsection \<open>The loop over the rounds\<close>

lemma rounds_loop_config:
  "config (fst (snd (for_range n run_round w))) = config (fst w)"
  by (rule for_range_inv [where P = "\<lambda>s. config (fst s) = config (fst w)"])
     (simp_all add: run_round_config)

lemma rounds_loop_ok:
  assumes "\<bar>ante (config (fst w))\<bar> < float_int_limit"
  shows "fst (for_range n run_round w) = Inr ()"
  by (rule for_range_ok [where P = "\<lambda>s. config (fst s) = config (fst w)"])
     (simp_all add: run_round_config run_round_ok assms)

lemma rounds_loop_no_players:
  "players (config (fst w)) \<le> 0 \<Longrightarrow> for_range n run_round w = (Inr (), w)"
  by (induction n) (simp_all add: run_round_no_players)


subsection \<open>simulate\<close>

lemma simulate_state:
  "snd (simulate (self, g))
     = snd (for_range (nat (rounds (config self))) run_round (self\<lparr>house_net := 0\<rparr>, g))"
  by (simp add: simulate_def Let_def split: prod.splits sum.splits)

lemma simulate_config: "config (fst (snd (simulate w))) = config (fst w)"
  by (cases w) (simp add: simulate_state rounds_loop_config)

lemma simulate_reset: "simulate (self\<lparr>house_net := h\<rparr>, g) = simulate (self, g)"
  by (simp add: simulate_def)

lemma simulate_result:
  assumes loop: "for_range (nat (rounds (config self))) run_round (self\<lparr>house_net := 0\<rparr>, g)
                   = (Inr (), (self', g'))"
    and T: "T = rounds (config self) * players (config self) * ante (config self)"
    and conv: "T < float_int_limit"
  shows "fst (simulate (self, g))
           = Inr [(''house_net'', py_round (house_net self') 2),
                  (''house_edge'', if 0 < T then py_round (house_net self' / of_int T) 4 else 0)]"
proof -
  have cfg: "config self' = config self"
    using rounds_loop_config [of "nat (rounds (config self))" "(self\<lparr>house_net := 0\<rparr>, g)"] loop
    by simp
  show ?thesis
  proof (cases "0 < T")
    case True
    with conv have "float_of_int T = Inr (of_int T)" by (simp add: float_of_int_def)
    moreover from True have "(of_int T :: real) \<noteq> 0" by simp
    ultimately show ?thesis
      using True loop cfg by (simp add: simulate_def float_truediv_def T [symmetric])
  next
    case False
    with loop cfg show ?thesis
      by (simp add: simulate_def py_round_0 T [symmetric])
  qed
qed

subsection \<open>A constant source, a zero ante\<close>




section \<open>Degenerate configurations\<close>

text \<open>
  Claim C4. With \<open>rounds = 0\<close> or \<open>players = 0\<close> no player-turn runs, whatever the
  draws and the other fields are: \<open>simulate\<close> returns \<open>house_net = 0.0\<close> and
  \<open>house_edge = 0.0\<close>.
\<close>

theorem simulate_no_rounds_or_no_players:
  assumes "rounds (config self) = 0 \<or> players (config self) = 0"
  shows "fst (simulate (self, g)) = Inr [(''house_net'', 0), (''house_edge'', 0)]"
proof -
  have loop: "for_range (nat (rounds (config self))) run_round (self\<lparr>house_net := 0\<rparr>, g)
                = (Inr (), (self\<lparr>house_net := 0\<rparr>, g))"
    using assms by (auto simp: rounds_loop_no_players)
  have T: "rounds (config self) * players (config self) * ante (config self) = 0"
    using assms by auto
  show ?thesis
    using simulate_result [OF loop refl] float_int_limit_pos by (simp add: T py_round_0)
qed

text \<open>The theorem at a configuration without rounds and at one without players.\<close>

theorem simulate_no_rounds_or_no_players_witness:
  "(rounds (config (init (default_Config\<lparr>rounds := 0\<rparr>))) = 0
      \<or> players (config (init (default_Config\<lparr>rounds := 0\<rparr>))) = 0)
   \<and> fst (simulate (init (default_Config\<lparr>rounds := 0\<rparr>), constant_source (1 / 2)))
       = Inr [(''house_net'', 0), (''house_edge'', 0)]
   \<and> (rounds (config (init (default_Config\<lparr>players := 0\<rparr>))) = 0
      \<or> players (config (init (default_Config\<lparr>players := 0\<rparr>))) = 0)
   \<and> fst (simulate (init (default_Config\<lparr>players := 0\<rparr>), constant_source (1 / 2)))
       = Inr [(''house_net'', 0), (''house_edge'', 0)]"
  using simulate_no_rounds_or_no_players
          [of "init (default_Config\<lparr>rounds := 0\<rparr>)" "constant_source (1 / 2)"]
        simulate_no_rounds_or_no_players
          [of "init (default_Config\<lparr>players := 0\<rparr>)" "constant_source (1 / 2)"]
  by (simp add: init_def default_Config_def)



section \<open>A scenario with a fixed source\<close>

text \<open>
  Claim C6. With a source that always returns \<open>0.0\<close> every draw takes the first branch;
  for \<open>Config(players=2, ante=5, rounds=10)\<close> the twenty player-turns give
  \<open>house_net = -100.0\<close> and \<open>house_edge = -1.0\<close>.
\<close>

theorem simulate_always_player_wins:
  "fst (simulate (init (default_Config\<lparr>players := 2, ante := 5, rounds := 10\<rparr>), constant_source 0))
     = Inr [(''house_net'', - 100), (''house_edge'', - 1)]"
  by code_simp

section \<open>The three branches of a player-turn\<close>



section \<open>The house edge\<close>




section \<open>A bound on the accumulator\<close>




section \<open>Errors\<close>

text \<open>
  With one player, one round and \<open>ante = 2^1024\<close> the first player-turn evaluates
  \<open>self.house_net -= self.config.ante\<close>, a float minus an integer that no double holds:
  \<open>simulate\<close> ends with \<open>OverflowError\<close>.
\<close>

theorem simulate_overflow_counterexample:
  "fst (simulate (init (default_Config\<lparr>players := 1, ante := 2 ^ 1024, rounds := 1\<rparr>), constant_source 0))
     = Inl OverflowError"
  by code_simp

text \<open>
  Claim C7, as the code has it. When \<open>ante\<close> and \<open>players * rounds * ante\<close> are within
  the range of the conversion to float, whatever their signs and whatever
  \<open>bust_multiplier\<close> is, \<open>simulate\<close> raises nothing and returns a dictionary with the keys
  \<open>house_net\<close> and \<open>house_edge\<close>; when \<open>players * rounds * ante\<close> is zero,
  \<open>house_edge\<close> is \<open>0.0\<close> and no division takes place.
\<close>

theorem simulate_returns:
  assumes "\<bar>ante (config self)\<bar> < float_int_limit"
    and "\<bar>players (config self) * rounds (config self) * ante (config self)\<bar> < float_int_limit"
  shows "\<exists>hn he. fst (simulate (self, g)) = Inr [(''house_net'', hn), (''house_edge'', he)]
           \<and> (players (config self) * rounds (config self) * ante (config self) = 0 \<longrightarrow> he = 0)"
proof -
  let ?w = "(self\<lparr>house_net := 0\<rparr>, g)"
  let ?n = "nat (rounds (config self))"
  let ?T = "rounds (config self) * players (config self) * ante (config self)"
  have "fst (for_range ?n run_round ?w) = Inr ()"
    using assms(1) by (intro rounds_loop_ok) simp
  then obtain self' g' where loop: "for_range ?n run_round ?w = (Inr (), (self', g'))"
    by (cases "for_range ?n run_round ?w") auto
  have "?T < float_int_limit" using assms(2) by (simp add: mult.commute)
  from simulate_result [OF loop refl this] show ?thesis by (auto simp: mult.commute)
qed

text \<open>
  The theorem at the default configuration with no rounds.
\<close>

theorem simulate_returns_witness:
  "\<bar>ante (config (init (default_Config\<lparr>rounds := 0\<rparr>)))\<bar> < float_int_limit
   \<and> \<bar>players (config (init (default_Config\<lparr>rounds := 0\<rparr>)))
        * rounds (config (init (default_Config\<lparr>rounds := 0\<rparr>)))
        * ante (config (init (default_Config\<lparr>rounds := 0\<rparr>)))\<bar> < float_int_limit
   \<and> (\<exists>hn. fst (simulate (init (default_Config\<lparr>rounds := 0\<rparr>), constant_source (1 / 2)))
           = Inr [(''house_net'', hn), (''house_edge'', 0)])"
  using simulate_returns
          [where self = "init (default_Config\<lparr>rounds := 0\<rparr>)" and g = "constant_source (1 / 2)"]
  by (simp add: init_def default_Config_def float_int_limit_def)

section \<open>Repeatability\<close>

text \<open>
  Claim C8. A second call of \<open>simulate\<close> on the engine the first call has left, fed
  the same draws, returns what the first call has returned: the accumulator is reset at
  the start of a call and nothing else of the engine changes.
\<close>

theorem simulate_repeatable:
  "fst (simulate (fst (snd (simulate (self, g))), g)) = fst (simulate (self, g))"
proof -
  let ?self' = "fst (snd (simulate (self, g)))"
  have "config ?self' = config self"
    using simulate_config [of "(self, g)"] by simp
  then have "?self' = self\<lparr>house_net := house_net ?self'\<rparr>"
    by (cases self, cases ?self') simp
  then have "simulate (?self', g) = simulate (self\<lparr>house_net := house_net ?self'\<rparr>, g)"
    by simp
  then show ?thesis by (simp only: simulate_reset)
qed

section \<open>Fields the simulation does not read\<close>

lemma player_turn_reads:
  assumes "house_net (fst s) = house_net (fst t)" and "snd s = snd t"
    and "ante (config (fst s)) = ante (config (fst t))"
    and "bust_multiplier (config (fst s)) = bust_multiplier (config (fst t))"
  shows "fst (player_turn s) = fst (player_turn t)"
    and "house_net (fst (snd (player_turn s))) = house_net (fst (snd (player_turn t)))"
    and "snd (snd (player_turn s)) = snd (snd (player_turn t))"
  using assms
  by (cases s; cases t; simp add: player_turn_def random_random_def split: sum.splits)+

lemma rounds_loop_reads:
  fixes s t :: world
  assumes "house_net (fst s) = house_net (fst t)" and "snd s = snd t"
    and "players (config (fst s)) = players (config (fst t))"
    and "ante (config (fst s)) = ante (config (fst t))"
    and "bust_multiplier (config (fst s)) = bust_multiplier (config (fst t))"
  shows "fst (for_range n run_round s) = fst (for_range n run_round t)
         \<and> house_net (fst (snd (for_range n run_round s)))
             = house_net (fst (snd (for_range n run_round t)))"
proof -
  let ?R = "\<lambda>s t :: world. house_net (fst s) = house_net (fst t) \<and> snd s = snd t
              \<and> players (config (fst s)) = players (config (fst t))
              \<and> ante (config (fst s)) = ante (config (fst t))
              \<and> bust_multiplier (config (fst s)) = bust_multiplier (config (fst t))"
  have turn: "fst (player_turn s) = fst (player_turn t) \<and> ?R (snd (player_turn s)) (snd (player_turn t))"
    if "?R s t" for s t
    using that player_turn_reads [of s t] by (simp add: player_turn_config)
  have one_round: "fst (run_round s) = fst (run_round t) \<and> ?R (snd (run_round s)) (snd (run_round t))"
    if "?R s t" for s t
  proof -
    from that have "nat (players (config (fst s))) = nat (players (config (fst t)))" by simp
    with for_range_rel [where R = ?R and body = player_turn, OF turn that]
    show ?thesis by (simp add: run_round_def)
  qed
  have "?R s t" using assms by simp
  from for_range_rel [where R = ?R and body = run_round, OF one_round this]
  show ?thesis by simp
qed

text \<open>
  Claim C9. Two configurations with the same \<open>players\<close>, \<open>ante\<close>, \<open>rounds\<close> and
  \<open>bust_multiplier\<close> give the same result on the same draws, whatever their
  \<open>target_edge\<close>, \<open>min_edge\<close>, \<open>max_edge\<close> and \<open>tube_initial\<close> are.
\<close>

theorem simulate_ignores_unused_fields:
  assumes "players c1 = players c2" and "ante c1 = ante c2" and "rounds c1 = rounds c2"
    and "bust_multiplier c1 = bust_multiplier c2"
  shows "fst (simulate (self\<lparr>config := c1\<rparr>, g)) = fst (simulate (self\<lparr>config := c2\<rparr>, g))"
proof -
  let ?n = "nat (rounds c1)"
  let ?s = "(self\<lparr>config := c1, house_net := 0\<rparr>, g)"
  let ?t = "(self\<lparr>config := c2, house_net := 0\<rparr>, g)"
  obtain r1 self1 g1 where l1: "for_range ?n run_round ?s = (r1, (self1, g1))"
    by (cases "for_range ?n run_round ?s") auto
  obtain r2 self2 g2 where l2: "for_range ?n run_round ?t = (r2, (self2, g2))"
    by (cases "for_range ?n run_round ?t") auto
  have "fst (for_range ?n run_round ?s) = fst (for_range ?n run_round ?t)
        \<and> house_net (fst (snd (for_range ?n run_round ?s)))
            = house_net (fst (snd (for_range ?n run_round ?t)))"
    using assms by (intro rounds_loop_reads) simp_all
  with l1 l2 have same: "r1 = r2" "house_net self1 = house_net self2" by simp_all
  have c1: "config self1 = c1"
    using rounds_loop_config [of ?n ?s] l1 by simp
  have c2: "config self2 = c2"
    using rounds_loop_config [of ?n ?t] l2 by simp
  show ?thesis
    using l1 l2 same c1 c2 assms
    by (simp add: simulate_def Let_def split: sum.splits)
qed

text \<open>
  The theorem at the default configuration and a copy of it with other edge bounds and
  an empty \<open>tube_initial\<close>.
\<close>

theorem simulate_ignores_unused_fields_witness:
  "players default_Config
     = players (default_Config\<lparr>target_edge := 0, min_edge := 1, max_edge := 2, tube_initial := Map.empty\<rparr>)
   \<and> ante default_Config
     = ante (default_Config\<lparr>target_edge := 0, min_edge := 1, max_edge := 2, tube_initial := Map.empty\<rparr>)
   \<and> rounds default_Config
     = rounds (default_Config\<lparr>target_edge := 0, min_edge := 1, max_edge := 2, tube_initial := Map.empty\<rparr>)
   \<and> bust_multiplier default_Config
     = bust_multiplier (default_Config\<lparr>target_edge := 0, min_edge := 1, max_edge := 2, tube_initial := Map.empty\<rparr>)
   \<and> fst (simulate (init default_Config, constant_source (1 / 2)))
     = fst (simulate (init (default_Config\<lparr>target_edge := 0, min_edge := 1, max_edge := 2, tube_initial := Map.empty\<rparr>),
                      constant_source (1 / 2)))"
  using simulate_ignores_unused_fields
          [of default_Config
              "default_Config\<lparr>target_edge := 0, min_edge := 1, max_edge := 2, tube_initial := Map.empty\<rparr>"
              "init default_Config" "constant_source (1 / 2)"]
  by (simp add: init_def)

section \<open>The configuration is only read\<close>

text \<open>
  Claim C10. The configuration the engine holds after \<open>run_round\<close>, and after any
  number \<open>n\<close> of calls of \<open>simulate\<close> in a row, is the configuration it held before,
  whatever the draws are and whether or not a call ends in an exception.
\<close>

theorem config_never_mutated:
  "config (fst (snd (run_round (self, g)))) = config self
   \<and> config (fst (((\<lambda>w. snd (simulate w)) ^^ n) (self, g))) = config self"
proof
  show "config (fst (snd (run_round (self, g)))) = config self"
    using run_round_config [of "(self, g)"] by simp
  show "config (fst (((\<lambda>w. snd (simulate w)) ^^ n) (self, g))) = config self"
    by (induction n) (simp_all add: simulate_config)
qed

end
